theory Spec2Isabelle
  imports Main "HOL-Library.Sublist"
begin

section \<open>Python values shared by the pipelines\<close>

text \<open>
  Python strings are modelled as HOL strings (lists of 8-bit characters, read as the code
  points U+0000 to U+00FF). Raised exceptions are values of the type \<open>error\<close>; a function
  that can raise returns \<open>error + 'a\<close> with \<open>Inl\<close> for the raised exception.
\<close>

datatype error =
    ExternalCollaboratorError string
  | TypeError
  | GraphValidationError
  | InvalidTransitionError
  | RouterContractViolation

text \<open>\<open>str(e)\<close> of a raised exception: the text it carries.\<close>

fun str_error :: "error \<Rightarrow> string" where
  "str_error (ExternalCollaboratorError m) = m"
| "str_error TypeError = ''TypeError''"
| "str_error GraphValidationError = ''GraphValidationError''"
| "str_error InvalidTransitionError = ''InvalidTransitionError''"
| "str_error RouterContractViolation = ''RouterContractViolation''"

subsection \<open>Strings\<close>

text \<open>
  \<open>str.isspace\<close>, \<open>str.strip()\<close> and \<open>str.lower()\<close> on the code points below 256:
  the whitespace characters are U+0009 to U+000D, U+001C to U+0020, U+0085 and U+00A0;
  the upper-case letters are A to Z and U+00C0 to U+00DE without U+00D7, each 32 below
  its lower-case form.
\<close>

definition py_isspace :: "char \<Rightarrow> bool" where
  "py_isspace c = (let n = (of_char c :: nat) in
      (9 \<le> n \<and> n \<le> 13) \<or> (28 \<le> n \<and> n \<le> 32) \<or> n = 133 \<or> n = 160)"

definition py_lower_char :: "char \<Rightarrow> char" where
  "py_lower_char c = (let n = (of_char c :: nat) in
      if (65 \<le> n \<and> n \<le> 90) \<or> (192 \<le> n \<and> n \<le> 222 \<and> n \<noteq> 215)
      then char_of (n + 32) else c)"

definition strip :: "string \<Rightarrow> string" where
  "strip s = rev (dropWhile py_isspace (rev (dropWhile py_isspace s)))"

definition lower :: "string \<Rightarrow> string" where
  "lower s = map py_lower_char s"

text \<open>\<open>str(n)\<close> of a non-negative integer: its decimal digits.\<close>

fun str_nat :: "nat \<Rightarrow> string" where
  "str_nat n = (if n < 10 then [] else str_nat (n div 10)) @ [''0123456789'' ! (n mod 10)]"

declare str_nat.simps [simp del]

text \<open>\<open>sep.join(parts)\<close>.\<close>

fun join :: "string \<Rightarrow> string list \<Rightarrow> string" where
  "join sep [] = []"
| "join sep [x] = x"
| "join sep (x # y # ys) = x @ sep @ join sep (y # ys)"

definition NL :: string where
  "NL = [CHR 0x0A]"

subsection \<open>Search results\<close>

text \<open>
  A search result is a Python dictionary. Its values are strings or \<open>None\<close>, and a key may
  be missing. The dictionary is an association list read with \<open>map_of\<close>; the value
  \<open>None :: string option\<close> is Python's \<open>None\<close>.
\<close>

type_synonym result_dict = "(string \<times> string option) list"

text \<open>\<open>d.get(key, default)\<close>; \<open>d.get(key)\<close> is \<open>dict_get d key None\<close>.\<close>

definition dict_get :: "result_dict \<Rightarrow> string \<Rightarrow> string option \<Rightarrow> string option" where
  "dict_get d key dflt = (case map_of d key of None \<Rightarrow> dflt | Some v \<Rightarrow> v)"

text \<open>Truth value of a string or \<open>None\<close>: false for \<open>None\<close> and for the empty string.\<close>

fun truthy :: "string option \<Rightarrow> bool" where
  "truthy None = False"
| "truthy (Some s) = (s \<noteq> [])"

text \<open>\<open>v[:500]\<close>: the first 500 characters of a string; \<open>None\<close> is not subscriptable.\<close>

fun slice500 :: "string option \<Rightarrow> error + string" where
  "slice500 None = Inl TypeError"
| "slice500 (Some s) = Inr (take 500 s)"

text \<open>A value interpolated into an f-string: \<open>str(v)\<close>.\<close>

fun py_str :: "string option \<Rightarrow> string" where
  "py_str None = ''None''"
| "py_str (Some s) = s"

text \<open>
  The search service \<open>TavilySearchResults(...).invoke({"query": query})\<close> is a parameter
  of the handlers that call it: it returns a list of results or raises.
\<close>

type_synonym search_service = "string \<Rightarrow> error + result_dict list"

text \<open>
  The loop shared by the \<open>search_web\<close> handlers:
  \<^verbatim>\<open>
  search_results = []
  for query in queries:
      results = tavily_search.invoke({"query": query})
      if results:
          search_results.extend(results)
  \<close>
  The third argument is the local list \<open>search_results\<close>. There is no \<open>try\<close> around the
  call, so an exception raised by the service leaves the loop and the handler.
\<close>

fun search_loop :: "search_service \<Rightarrow> string list \<Rightarrow> result_dict list \<Rightarrow> error + result_dict list" where
  "search_loop tavily_search [] search_results = Inr search_results"
| "search_loop tavily_search (query # queries) search_results =
     (case tavily_search query of
        Inl e \<Rightarrow> Inl e
      | Inr results \<Rightarrow>
          search_loop tavily_search queries
            (if results \<noteq> [] then search_results @ results else search_results))"

section \<open>createPersonalityBlog.py\<close>

datatype WorkflowState = RESEARCHING | OUTLINE_CREATED | OUTLINE_APPROVED | BLOG_GENERATED

record PersonalityBlogState =
  person :: string
  enneagram_type :: string
  status :: WorkflowState
  search_queries :: "string list"
  search_results :: "result_dict list"
  person_research :: "string option"
  enneagram_research :: "string option"
  content_outline :: "string option"
  final_blog :: "string option"
  outline_approved :: bool

text \<open>
  \<open>format_search_results\<close>: the loop over \<open>enumerate(search_results)\<close> carries the index
  \<open>i\<close> and the list \<open>formatted\<close>; an exception raised in the body leaves the loop.
\<close>

definition content_preview :: "result_dict \<Rightarrow> error + string" where
  "content_preview result =
     (if truthy (dict_get result ''content'' None)
      then slice500 (dict_get result ''content'' (Some []))
      else Inr [])"

definition result_block :: "nat \<Rightarrow> result_dict \<Rightarrow> string \<Rightarrow> string" where
  "result_block i result preview =
     ''RESULT '' @ str_nat (i + 1) @ '':'' @ NL @
     ''Title: '' @ py_str (dict_get result ''title'' (Some ''No title'')) @ NL @
     ''URL: '' @ py_str (dict_get result ''url'' (Some ''No URL'')) @ NL @
     ''Content (excerpt): '' @ preview @ ''...'' @ NL"

fun format_loop :: "nat \<Rightarrow> result_dict list \<Rightarrow> string list \<Rightarrow> error + string list" where
  "format_loop i [] formatted = Inr formatted"
| "format_loop i (result # rest) formatted =
     (case content_preview result of
        Inl e \<Rightarrow> Inl e
      | Inr preview \<Rightarrow> format_loop (i + 1) rest (formatted @ [result_block i result preview]))"

definition format_search_results :: "result_dict list \<Rightarrow> error + string" where
  "format_search_results results =
     (if results = [] then Inr ''No search results found.''
      else (case format_loop 0 results [] of
              Inl e \<Rightarrow> Inl e
            | Inr formatted \<Rightarrow> Inr (join (NL @ NL) formatted)))"

text \<open>\<open>search_web\<close> assigns the local list to \<open>state.search_results\<close> and returns the state.\<close>

definition search_web :: "search_service \<Rightarrow> PersonalityBlogState \<Rightarrow> error + PersonalityBlogState" where
  "search_web tavily_search state =
     (case search_loop tavily_search (search_queries state) [] of
        Inl e \<Rightarrow> Inl e
      | Inr results \<Rightarrow> Inr (state\<lparr>search_results := results\<rparr>))"

text \<open>
  \<open>check_outline_approval\<close> returns a label; it also assigns \<open>state.status\<close> on the approved
  branch, so the model returns the label together with the state object after the call.
\<close>

definition check_outline_approval :: "PersonalityBlogState \<Rightarrow> string \<times> PersonalityBlogState" where
  "check_outline_approval state =
     (if outline_approved state
      then (''approved'', state\<lparr>status := OUTLINE_APPROVED\<rparr>)
      else (''not_approved'', state))"

text \<open>
  \<open>update_and_approve_outline(state, updated_outline=None)\<close>: the optional argument is
  \<open>None\<close> or a string.
\<close>

definition update_and_approve_outline ::
  "PersonalityBlogState \<Rightarrow> string option \<Rightarrow> PersonalityBlogState" where
  "update_and_approve_outline state updated_outline =
     (let state1 = (case updated_outline of
                      Some u \<Rightarrow> state\<lparr>content_outline := Some u\<rparr>
                    | None \<Rightarrow> state)
      in state1\<lparr>outline_approved := True\<rparr>)"

text \<open>
  The language-model chains are parameters of the handlers that call them: a chain is a
  function of the prompt's input variables that returns the structured output or raises.
  \<open>SearchQueries\<close> is the pair of \<open>person_queries\<close> and \<open>enneagram_queries\<close>,
  \<open>ResearchOutput\<close> the pair of \<open>person_research\<close> and \<open>enneagram_research\<close>.
\<close>

record services_cpb =
  cpb_query_chain :: "string \<Rightarrow> string \<Rightarrow> error + string list \<times> string list"
  cpb_tavily_search :: search_service
  cpb_research_chain :: "string \<Rightarrow> string \<Rightarrow> string \<Rightarrow> error + string \<times> string"
  cpb_outline_chain :: "string \<Rightarrow> string \<Rightarrow> string option \<Rightarrow> string option \<Rightarrow> error + string"
  cpb_blog_chain ::
    "string \<Rightarrow> string \<Rightarrow> string option \<Rightarrow> string option \<Rightarrow> string option \<Rightarrow> error + string"

definition generate_search_queries ::
  "(string \<Rightarrow> string \<Rightarrow> error + string list \<times> string list) \<Rightarrow>
   PersonalityBlogState \<Rightarrow> error + PersonalityBlogState" where
  "generate_search_queries chain state =
     (case chain (person state) (enneagram_type state) of
        Inl e \<Rightarrow> Inl e
      | Inr (person_queries, enneagram_queries) \<Rightarrow>
          Inr (state\<lparr>search_queries := person_queries @ enneagram_queries\<rparr>))"

definition organize_research ::
  "(string \<Rightarrow> string \<Rightarrow> string \<Rightarrow> error + string \<times> string) \<Rightarrow>
   PersonalityBlogState \<Rightarrow> error + PersonalityBlogState" where
  "organize_research chain state =
     (case format_search_results (search_results state) of
        Inl e \<Rightarrow> Inl e
      | Inr search_results_str \<Rightarrow>
          (case chain (person state) (enneagram_type state) search_results_str of
             Inl e \<Rightarrow> Inl e
           | Inr (research_person, research_enneagram) \<Rightarrow>
               Inr (state\<lparr>person_research := Some research_person,
                          enneagram_research := Some research_enneagram\<rparr>)))"

definition create_content_outline ::
  "(string \<Rightarrow> string \<Rightarrow> string option \<Rightarrow> string option \<Rightarrow> error + string) \<Rightarrow>
   PersonalityBlogState \<Rightarrow> error + PersonalityBlogState" where
  "create_content_outline chain state =
     (case chain (person state) (enneagram_type state) (person_research state)
             (enneagram_research state) of
        Inl e \<Rightarrow> Inl e
      | Inr outline \<Rightarrow>
          Inr (state\<lparr>content_outline := Some outline, status := OUTLINE_CREATED\<rparr>))"

definition generate_blog_content ::
  "(string \<Rightarrow> string \<Rightarrow> string option \<Rightarrow> string option \<Rightarrow> string option \<Rightarrow> error + string) \<Rightarrow>
   PersonalityBlogState \<Rightarrow> error + PersonalityBlogState" where
  "generate_blog_content chain state =
     (case chain (person state) (enneagram_type state) (content_outline state)
             (person_research state) (enneagram_research state) of
        Inl e \<Rightarrow> Inl e
      | Inr content \<Rightarrow>
          Inr (state\<lparr>final_blog := Some content, status := BLOG_GENERATED\<rparr>))"

section \<open>updatePeopleBlogs.py\<close>

text \<open>
  The fields of this module's \<open>BlogUpdateState\<close> carry the prefix \<open>upb_\<close>, since two other
  state classes of the repository use the same field names.
\<close>

record BlogUpdateState_upb =
  upb_blog_url :: string
  upb_current_content :: "string option"
  upb_outline :: "string option"
  upb_person :: "string option"
  upb_enneagram_type :: "string option"
  upb_suggestions :: "string option"
  upb_search_queries :: "string list"
  upb_search_results :: "result_dict list"
  upb_proposed_outline :: "string option"

definition result_block_upb :: "result_dict \<Rightarrow> string \<Rightarrow> string" where
  "result_block_upb result preview =
     ''Title: '' @ py_str (dict_get result ''title'' (Some ''No title'')) @ NL @
     ''URL: '' @ py_str (dict_get result ''url'' (Some ''No URL'')) @ NL @
     ''Content (excerpt): '' @ preview @ ''...'' @ NL"

fun format_loop_upb :: "result_dict list \<Rightarrow> string list \<Rightarrow> error + string list" where
  "format_loop_upb [] formatted = Inr formatted"
| "format_loop_upb (result # rest) formatted =
     (case content_preview result of
        Inl e \<Rightarrow> Inl e
      | Inr preview \<Rightarrow> format_loop_upb rest (formatted @ [result_block_upb result preview]))"

definition format_search_results_upb :: "result_dict list \<Rightarrow> error + string" where
  "format_search_results_upb results =
     (if results = [] then Inr ''No search results found.''
      else (case format_loop_upb results [] of
              Inl e \<Rightarrow> Inl e
            | Inr formatted \<Rightarrow> Inr (join NL formatted)))"

text \<open>
  The document loader \<open>WebBaseLoader(url).load()\<close> is a parameter: it returns the list of
  loaded documents or raises an exception.
\<close>

record Document =
  page_content :: string

type_synonym loader = "string \<Rightarrow> error + Document list"

text \<open>
  \<open>fetch_blog_content\<close>: the whole body is inside \<open>try ... except Exception as e\<close>.
  \<open>documents[0]\<close> is evaluated only when \<open>documents\<close> is not empty.
\<close>

definition fetch_blog_content_upb :: "loader \<Rightarrow> BlogUpdateState_upb \<Rightarrow> BlogUpdateState_upb" where
  "fetch_blog_content_upb load state =
     (case load (upb_blog_url state) of
        Inr documents \<Rightarrow>
          (if documents = [] \<or> page_content (hd documents) = []
           then state\<lparr>upb_current_content := Some ''No content could be loaded from the blog URL.''\<rparr>
           else state\<lparr>upb_current_content := Some (page_content (hd documents))\<rparr>)
      | Inl e \<Rightarrow> state\<lparr>upb_current_content := Some (''Error loading blog: '' @ str_error e)\<rparr>)"

definition search_web_upb :: "search_service \<Rightarrow> BlogUpdateState_upb \<Rightarrow> error + BlogUpdateState_upb" where
  "search_web_upb tavily_search state =
     (case search_loop tavily_search (upb_search_queries state) [] of
        Inl e \<Rightarrow> Inl e
      | Inr results \<Rightarrow> Inr (state\<lparr>upb_search_results := results\<rparr>))"

text \<open>
  The chains of this module. \<open>AnalyzeContentOutput\<close> is the tuple of \<open>person\<close>,
  \<open>enneagram_type\<close>, \<open>outline\<close> and \<open>suggestions\<close>. The prompts of
  \<open>generate_search_queries\<close> and \<open>create_outline\<close> are f-strings over fields of the state,
  so those fields are the chains' arguments.
\<close>

record services_upb =
  upb_load :: loader
  upb_analyze_chain :: "string option \<Rightarrow> error + string \<times> string \<times> string \<times> string"
  upb_query_chain :: "string option \<Rightarrow> string option \<Rightarrow> string option \<Rightarrow> error + string list"
  upb_tavily_search :: search_service
  upb_outline_chain :: "string option \<Rightarrow> string option \<Rightarrow> string \<Rightarrow> error + string"

definition analyze_content_upb ::
  "(string option \<Rightarrow> error + string \<times> string \<times> string \<times> string) \<Rightarrow>
   BlogUpdateState_upb \<Rightarrow> error + BlogUpdateState_upb" where
  "analyze_content_upb chain state =
     (case chain (upb_current_content state) of
        Inl e \<Rightarrow> Inl e
      | Inr (a_person, a_enneagram_type, a_outline, a_suggestions) \<Rightarrow>
          Inr (state\<lparr>upb_person := Some a_person, upb_enneagram_type := Some a_enneagram_type,
                     upb_outline := Some a_outline, upb_suggestions := Some a_suggestions\<rparr>))"

definition generate_search_queries_upb ::
  "(string option \<Rightarrow> string option \<Rightarrow> string option \<Rightarrow> error + string list) \<Rightarrow>
   BlogUpdateState_upb \<Rightarrow> error + BlogUpdateState_upb" where
  "generate_search_queries_upb chain state =
     (case chain (upb_person state) (upb_outline state) (upb_suggestions state) of
        Inl e \<Rightarrow> Inl e
      | Inr queries \<Rightarrow> Inr (state\<lparr>upb_search_queries := queries\<rparr>))"

definition create_outline_upb ::
  "(string option \<Rightarrow> string option \<Rightarrow> string \<Rightarrow> error + string) \<Rightarrow>
   BlogUpdateState_upb \<Rightarrow> error + BlogUpdateState_upb" where
  "create_outline_upb chain state =
     (case format_search_results_upb (upb_search_results state) of
        Inl e \<Rightarrow> Inl e
      | Inr search_results_str \<Rightarrow>
          (case chain (upb_person state) (upb_outline state) search_results_str of
             Inl e \<Rightarrow> Inl e
           | Inr content \<Rightarrow> Inr (state\<lparr>upb_proposed_outline := Some content\<rparr>)))"

section \<open>updateBlogGraph.py\<close>

text \<open>
  This module's \<open>format_search_results\<close> slices \<open>result.get('content', '')\<close> without the
  test that the value is true.
\<close>

definition content_preview_ubg :: "result_dict \<Rightarrow> error + string" where
  "content_preview_ubg result = slice500 (dict_get result ''content'' (Some []))"

definition result_block_ubg :: "result_dict \<Rightarrow> string \<Rightarrow> string" where
  "result_block_ubg result preview =
     ''Title: '' @ py_str (dict_get result ''title'' (Some ''No title'')) @ NL @
     ''URL: '' @ py_str (dict_get result ''url'' (Some ''No URL'')) @ NL @
     ''Content (excerpt): '' @ preview @ ''...'' @ NL"

fun format_loop_ubg :: "result_dict list \<Rightarrow> string list \<Rightarrow> error + string list" where
  "format_loop_ubg [] formatted = Inr formatted"
| "format_loop_ubg (result # rest) formatted =
     (case content_preview_ubg result of
        Inl e \<Rightarrow> Inl e
      | Inr preview \<Rightarrow> format_loop_ubg rest (formatted @ [result_block_ubg result preview]))"

definition format_search_results_ubg :: "result_dict list \<Rightarrow> error + string" where
  "format_search_results_ubg results =
     (if results = [] then Inr ''No search results found.''
      else (case format_loop_ubg results [] of
              Inl e \<Rightarrow> Inl e
            | Inr formatted \<Rightarrow> Inr (join NL formatted)))"

text \<open>
  The external input of a resumed run is any Python value.
\<close>

datatype pyval = PyNone | PyBool bool | PyInt int | PyStr string | PyList "pyval list"

text \<open>
  The fields of this module's \<open>BlogUpdateState\<close> carry the prefix \<open>ubg_\<close>.
\<close>

record BlogUpdateState_ubg =
  ubg_blog_url :: string
  ubg_current_content :: "string option"
  ubg_summary :: "string option"
  ubg_suggestions :: "string option"
  ubg_search_queries :: "string list option"
  ubg_search_results :: "result_dict list option"
  ubg_proposed_outline :: "string option"
  ubg_approved_outline :: "string option"
  ubg_new_content :: "string option"
  ubg_updated_blog :: "string option"

text \<open>
  The handlers of this module return dictionaries \<open>{"field": value}\<close>. An entry of such a
  dictionary is a \<open>field_update\<close>: \<open>{"approved_outline": v}\<close> is \<open>[Set_approved_outline v]\<close>.
\<close>

datatype field_update =
    Set_current_content string
  | Set_summary string
  | Set_suggestions string
  | Set_search_queries "string list"
  | Set_search_results "result_dict list"
  | Set_proposed_outline string
  | Set_approved_outline string
  | Set_new_content string
  | Set_updated_blog string

text \<open>
  What a handler hands back to the executor: a partial update, a \<open>Command(goto, update)\<close>,
  a suspension with the payload passed to \<open>interrupt\<close>, or a bare label (a router
  registered as a node returns one).
\<close>

datatype 'u outcome = Update 'u | Command string 'u | Suspend string | Label string

text \<open>\<open>x or default\<close> for an optional string.\<close>

definition or_default :: "string option \<Rightarrow> string \<Rightarrow> string" where
  "or_default x dflt = (if truthy x then py_str x else dflt)"

definition interrupt_payload :: "string \<Rightarrow> string" where
  "interrupt_payload proposed_outline =
     ''Here is the proposed outline for additional content:'' @ NL @ NL @
     proposed_outline @ NL @ NL @
     ''If you approve this outline, type 'approve'. Otherwise, type any revisions you want to make:'' @ NL"

text \<open>
  \<open>human_feedback\<close>. The call \<open>interrupt(payload)\<close> suspends the run when there is no
  external input yet (\<open>resume = None\<close>) and returns the external input when the run is
  resumed (\<open>resume = Some feedback\<close>). The case on \<open>feedback\<close> is
  \<open>isinstance(feedback, str)\<close>.
\<close>

definition human_feedback :: "BlogUpdateState_ubg \<Rightarrow> pyval option \<Rightarrow> field_update list outcome" where
  "human_feedback state resume =
     (let proposed_outline = or_default (ubg_proposed_outline state) ''No outline was generated.''
      in case resume of
           None \<Rightarrow> Suspend (interrupt_payload proposed_outline)
         | Some feedback \<Rightarrow>
             (case feedback of
                PyStr text \<Rightarrow>
                  if lower (strip text) = ''approve''
                  then Command ''generate_new_content'' [Set_approved_outline proposed_outline]
                  else Command ''create_outline'' [Set_proposed_outline text]
              | _ \<Rightarrow> Command ''create_outline'' [Set_proposed_outline []]))"

text \<open>
  The other handlers of this module return a dictionary of the fields they set. Its
  \<open>fetch_blog_content\<close> has no \<open>try\<close>; \<open>search_web\<close> reads \<open>state.search_queries or []\<close>;
  \<open>create_outline\<close> passes \<open>state.search_results\<close>, where \<open>None\<close> is as false as the empty
  list in \<open>format_search_results\<close>. The prompt of \<open>create_outline\<close> has the formatted
  results as its only input variable.
\<close>

record services_ubg =
  ubg_load :: loader
  ubg_analyze_chain :: "string option \<Rightarrow> error + string \<times> string"
  ubg_query_chain :: "string option \<Rightarrow> string option \<Rightarrow> error + string list"
  ubg_tavily_search :: search_service
  ubg_outline_chain :: "string \<Rightarrow> error + string"
  ubg_content_chain :: "string option \<Rightarrow> error + string"

definition fetch_blog_content_ubg :: "loader \<Rightarrow> BlogUpdateState_ubg \<Rightarrow> error + field_update list" where
  "fetch_blog_content_ubg load state =
     (case load (ubg_blog_url state) of
        Inl e \<Rightarrow> Inl e
      | Inr documents \<Rightarrow>
          (if documents = [] \<or> page_content (hd documents) = []
           then Inr [Set_current_content ''No content could be loaded from the blog URL.'']
           else Inr [Set_current_content (page_content (hd documents))]))"

definition analyze_content_ubg ::
  "(string option \<Rightarrow> error + string \<times> string) \<Rightarrow> BlogUpdateState_ubg \<Rightarrow> error + field_update list" where
  "analyze_content_ubg chain state =
     (case chain (ubg_current_content state) of
        Inl e \<Rightarrow> Inl e
      | Inr (a_summary, a_suggestions) \<Rightarrow> Inr [Set_summary a_summary, Set_suggestions a_suggestions])"

definition generate_search_queries_ubg ::
  "(string option \<Rightarrow> string option \<Rightarrow> error + string list) \<Rightarrow>
   BlogUpdateState_ubg \<Rightarrow> error + field_update list" where
  "generate_search_queries_ubg chain state =
     (case chain (ubg_summary state) (ubg_suggestions state) of
        Inl e \<Rightarrow> Inl e
      | Inr queries \<Rightarrow> Inr [Set_search_queries queries])"

definition search_web_ubg :: "search_service \<Rightarrow> BlogUpdateState_ubg \<Rightarrow> error + field_update list" where
  "search_web_ubg tavily_search state =
     (let queries = (case ubg_search_queries state of None \<Rightarrow> [] | Some qs \<Rightarrow> qs)
      in case search_loop tavily_search queries [] of
           Inl e \<Rightarrow> Inl e
         | Inr results \<Rightarrow> Inr [Set_search_results results])"

definition create_outline_ubg :: "(string \<Rightarrow> error + string) \<Rightarrow> BlogUpdateState_ubg \<Rightarrow> error + field_update list" where
  "create_outline_ubg chain state =
     (case format_search_results_ubg
             (case ubg_search_results state of None \<Rightarrow> [] | Some rs \<Rightarrow> rs) of
        Inl e \<Rightarrow> Inl e
      | Inr search_results_str \<Rightarrow>
          (case chain search_results_str of
             Inl e \<Rightarrow> Inl e
           | Inr content \<Rightarrow> Inr [Set_proposed_outline content]))"

definition generate_new_content_ubg ::
  "(string option \<Rightarrow> error + string) \<Rightarrow> BlogUpdateState_ubg \<Rightarrow> error + field_update list" where
  "generate_new_content_ubg chain state =
     (case chain (ubg_approved_outline state) of
        Inl e \<Rightarrow> Inl e
      | Inr content \<Rightarrow> Inr [Set_new_content content])"

definition update_blog_ubg :: "BlogUpdateState_ubg \<Rightarrow> error + field_update list" where
  "update_blog_ubg state =
     (let current_content = or_default (ubg_current_content state) ''No original blog content found.'';
          new_content = or_default (ubg_new_content state) ''No new content was generated.''
      in Inr [Set_updated_blog (current_content @ NL @ NL @ ''## Updates'' @ NL @ NL @ new_content)])"

text \<open>
  Modelled from the spec: the merge of a partial update into the state (section 3); the
  merging code is the graph library's and is not in the repository. No field of
  \<open>BlogUpdateState\<close> declares an accumulating reducer, so every field is a replace field:
  a written value overwrites the earlier one, and a field absent from the update is kept.
\<close>

fun apply_field :: "field_update \<Rightarrow> BlogUpdateState_ubg \<Rightarrow> BlogUpdateState_ubg" where
  "apply_field (Set_current_content v) state = state\<lparr>ubg_current_content := Some v\<rparr>"
| "apply_field (Set_summary v) state = state\<lparr>ubg_summary := Some v\<rparr>"
| "apply_field (Set_suggestions v) state = state\<lparr>ubg_suggestions := Some v\<rparr>"
| "apply_field (Set_search_queries v) state = state\<lparr>ubg_search_queries := Some v\<rparr>"
| "apply_field (Set_search_results v) state = state\<lparr>ubg_search_results := Some v\<rparr>"
| "apply_field (Set_proposed_outline v) state = state\<lparr>ubg_proposed_outline := Some v\<rparr>"
| "apply_field (Set_approved_outline v) state = state\<lparr>ubg_approved_outline := Some v\<rparr>"
| "apply_field (Set_new_content v) state = state\<lparr>ubg_new_content := Some v\<rparr>"
| "apply_field (Set_updated_blog v) state = state\<lparr>ubg_updated_blog := Some v\<rparr>"

definition merge_ubg :: "field_update list \<Rightarrow> BlogUpdateState_ubg \<Rightarrow> BlogUpdateState_ubg" where
  "merge_ubg update state = fold apply_field update state"

section \<open>Graphs\<close>

text \<open>
  A handler registered with \<open>add_node\<close> receives the state and, when the run is resumed
  at it, the external input.
\<close>

type_synonym ('s, 'u, 'i) handler = "'s \<Rightarrow> 'i option \<Rightarrow> error + 'u outcome"

text \<open>
  One call of \<open>add_conditional_edges(source, router, path_map)\<close>. The router returns its
  label and the state object as it leaves it; \<open>labels\<close> lists the labels the router can
  return.
\<close>

record 's branch =
  source :: string
  router :: "'s \<Rightarrow> string \<times> 's"
  labels :: "string list"
  path_map :: "(string \<times> string) list"

text \<open>
  What a module has told its \<open>StateGraph\<close> builder when it calls \<open>compile()\<close>: the
  \<open>add_node\<close> calls, the \<open>add_edge\<close> calls and the \<open>add_conditional_edges\<close> calls, in source
  order, and the way an update is merged into the state.
\<close>

record ('s, 'u, 'i) graph =
  nodes :: "(string \<times> ('s, 'u, 'i) handler) list"
  edges :: "(string \<times> string) list"
  conditional_edges :: "'s branch list"
  merge :: "'u \<Rightarrow> 's \<Rightarrow> 's"

definition START :: string where
  "START = ''__start__''"

definition END :: string where
  "END = ''__end__''"

text \<open>A handler that returns the state or a dictionary becomes a node that returns an update.\<close>

definition node :: "('s \<Rightarrow> error + 'u) \<Rightarrow> ('s, 'u, 'i) handler" where
  "node f state resume = (case f state of Inl e \<Rightarrow> Inl e | Inr u \<Rightarrow> Inr (Update u))"

subsection \<open>The builders of the three modules\<close>

text \<open>
  The label map given to \<open>add_conditional_edges\<close> for \<open>create_content_outline\<close> in
  createPersonalityBlog.py.
\<close>

definition outline_approval_path_map :: "(string \<times> string) list" where
  "outline_approval_path_map = [(''approved'', ''generate_blog_content''), (''not_approved'', END)]"

text \<open>
  createPersonalityBlog.py. Its handlers assign to the state object and return it, so the
  returned state replaces the state. \<open>check_outline_approval\<close> is registered as a node as
  well; as a node it returns its label. \<open>update_and_approve_outline\<close> as a node is called
  with the state alone.
\<close>

definition builder_cpb :: "services_cpb \<Rightarrow> (PersonalityBlogState, PersonalityBlogState, pyval) graph" where
  "builder_cpb ext =
     \<lparr>nodes =
        [(''generate_search_queries'', node (generate_search_queries (cpb_query_chain ext))),
         (''search_web'', node (search_web (cpb_tavily_search ext))),
         (''organize_research'', node (organize_research (cpb_research_chain ext))),
         (''create_content_outline'', node (create_content_outline (cpb_outline_chain ext))),
         (''check_outline_approval'', \<lambda>state resume. Inr (Label (fst (check_outline_approval state)))),
         (''update_and_approve_outline'', node (\<lambda>state. Inr (update_and_approve_outline state None))),
         (''generate_blog_content'', node (generate_blog_content (cpb_blog_chain ext)))],
      edges =
        [(START, ''generate_search_queries''),
         (''generate_search_queries'', ''search_web''),
         (''search_web'', ''organize_research''),
         (''organize_research'', ''create_content_outline''),
         (''update_and_approve_outline'', ''check_outline_approval''),
         (''generate_blog_content'', END)],
      conditional_edges =
        [\<lparr>source = ''create_content_outline'', router = check_outline_approval,
          labels = [''approved'', ''not_approved''], path_map = outline_approval_path_map\<rparr>],
      merge = (\<lambda>update state. update)\<rparr>"

text \<open>updatePeopleBlogs.py: five stages in a line.\<close>

definition builder_upb :: "services_upb \<Rightarrow> (BlogUpdateState_upb, BlogUpdateState_upb, pyval) graph" where
  "builder_upb ext =
     \<lparr>nodes =
        [(''fetch_blog_content'', node (\<lambda>state. Inr (fetch_blog_content_upb (upb_load ext) state))),
         (''analyze_content'', node (analyze_content_upb (upb_analyze_chain ext))),
         (''generate_search_queries'', node (generate_search_queries_upb (upb_query_chain ext))),
         (''search_web'', node (search_web_upb (upb_tavily_search ext))),
         (''create_outline'', node (create_outline_upb (upb_outline_chain ext)))],
      edges =
        [(START, ''fetch_blog_content''),
         (''fetch_blog_content'', ''analyze_content''),
         (''analyze_content'', ''generate_search_queries''),
         (''generate_search_queries'', ''search_web''),
         (''search_web'', ''create_outline''),
         (''create_outline'', END)],
      conditional_edges = [],
      merge = (\<lambda>update state. update)\<rparr>"

text \<open>
  updateBlogGraph.py. No edge leaves \<open>human_feedback\<close>: the handler decides the next stage
  with a Command.
\<close>

definition builder_ubg :: "services_ubg \<Rightarrow> (BlogUpdateState_ubg, field_update list, pyval) graph" where
  "builder_ubg ext =
     \<lparr>nodes =
        [(''fetch_blog_content'', node (fetch_blog_content_ubg (ubg_load ext))),
         (''analyze_content'', node (analyze_content_ubg (ubg_analyze_chain ext))),
         (''generate_search_queries'', node (generate_search_queries_ubg (ubg_query_chain ext))),
         (''search_web'', node (search_web_ubg (ubg_tavily_search ext))),
         (''create_outline'', node (create_outline_ubg (ubg_outline_chain ext))),
         (''human_feedback'', \<lambda>state resume. Inr (human_feedback state resume)),
         (''generate_new_content'', node (generate_new_content_ubg (ubg_content_chain ext))),
         (''update_blog'', node update_blog_ubg)],
      edges =
        [(START, ''fetch_blog_content''),
         (''fetch_blog_content'', ''analyze_content''),
         (''analyze_content'', ''generate_search_queries''),
         (''generate_search_queries'', ''search_web''),
         (''search_web'', ''create_outline''),
         (''create_outline'', ''human_feedback''),
         (''generate_new_content'', ''update_blog''),
         (''update_blog'', END)],
      conditional_edges = [],
      merge = merge_ubg\<rparr>"

subsection \<open>Routing\<close>

text \<open>
  Modelled from the spec: the router contract (section 4.3); the code that resolves a
  router's label is the graph library's and is not in the repository. A label outside the
  declared label set is a \<open>RouterContractViolation\<close>.
\<close>

definition route :: "string list \<Rightarrow> ('s \<Rightarrow> string \<times> 's) \<Rightarrow> 's \<Rightarrow> error + string" where
  "route label_set r state =
     (let label = fst (r state)
      in if label \<in> set label_set then Inr label else Inl RouterContractViolation)"

subsection \<open>Declared edges and reachable stages\<close>

definition registered :: "('s, 'u, 'i) graph \<Rightarrow> string list" where
  "registered g = map fst (nodes g)"

definition branches_of :: "('s, 'u, 'i) graph \<Rightarrow> string \<Rightarrow> 's branch list" where
  "branches_of g stage = filter (\<lambda>b. source b = stage) (conditional_edges g)"

text \<open>The targets of the edges declared out of a stage, unconditional and conditional.\<close>

definition out_targets :: "('s, 'u, 'i) graph \<Rightarrow> string \<Rightarrow> string list" where
  "out_targets g stage =
     map snd (filter (\<lambda>e. fst e = stage) (edges g)) @
     concat (map (\<lambda>b. map snd (path_map b)) (branches_of g stage))"

text \<open>
  The stages that a run from START can come to: along a declared edge, or by a Command to
  a registered stage that the handler of a reachable stage returns in some state and for
  some input.
\<close>

inductive reachable :: "('s, 'u, 'i) graph \<Rightarrow> string \<Rightarrow> bool" for g :: "('s, 'u, 'i) graph" where
  reachable_start: "reachable g START"
| reachable_edge: "reachable g a \<Longrightarrow> b \<in> set (out_targets g a) \<Longrightarrow> reachable g b"
| reachable_command:
    "reachable g a \<Longrightarrow> map_of (nodes g) a = Some h \<Longrightarrow> h s inp = Inr (Command b u) \<Longrightarrow>
     b \<in> set (registered g) \<Longrightarrow> reachable g b"

subsection \<open>Execution\<close>

text \<open>
  \<open>Completed\<close> carries the final state; \<open>Suspended\<close> the stage that asked for the
  suspension, its payload and the state of the run; \<open>Aborted\<close> the error that ended the
  run.
\<close>

datatype 's run_result = Completed 's | Suspended string string 's | Aborted error

text \<open>
  Modelled from the spec: the executor of section 4.2 and the resumption of section 4.4;
  the driving loop is the graph library's and is not in the repository.
  \<open>execution g stage s inp trace result\<close>: driven from \<open>stage\<close> with the state \<open>s\<close> (and the
  external input \<open>inp\<close> when the run is resumed at \<open>stage\<close>), the run visits the stages of
  \<open>trace\<close> in order and ends with \<open>result\<close>. A run starts at START with no input; a
  suspended run is resumed at the suspending stage with the external input.
  The handler of the current stage is invoked. A partial update is merged; then the router
  decides if the stage has conditional edges, and the unconditional edge is followed
  otherwise. A Command is merged and its target becomes the next stage, whatever edges the
  stage declares. A suspension request stops the run. A Command to an unregistered stage
  or an edge into one is an \<open>InvalidTransitionError\<close>; an undeclared label is a
  \<open>RouterContractViolation\<close>; an error raised by a handler ends the run.
\<close>

inductive execution ::
  "('s, 'u, 'i) graph \<Rightarrow> string \<Rightarrow> 's \<Rightarrow> 'i option \<Rightarrow> string list \<Rightarrow> 's run_result \<Rightarrow> bool"
  for g :: "('s, 'u, 'i) graph" where
  exec_end:
    "execution g END s inp [] (Completed s)"
| exec_start:
    "START \<noteq> END \<Longrightarrow> (START, t) \<in> set (edges g) \<Longrightarrow> execution g t s None tr r \<Longrightarrow>
     execution g START s inp (START # tr) r"
| exec_unregistered:
    "stage \<noteq> START \<Longrightarrow> stage \<noteq> END \<Longrightarrow> map_of (nodes g) stage = None \<Longrightarrow>
     execution g stage s inp [stage] (Aborted InvalidTransitionError)"
| exec_raise:
    "stage \<noteq> START \<Longrightarrow> stage \<noteq> END \<Longrightarrow> map_of (nodes g) stage = Some h \<Longrightarrow>
     h s inp = Inl e \<Longrightarrow>
     execution g stage s inp [stage] (Aborted e)"
| exec_suspend:
    "stage \<noteq> START \<Longrightarrow> stage \<noteq> END \<Longrightarrow> map_of (nodes g) stage = Some h \<Longrightarrow>
     h s inp = Inr (Suspend payload) \<Longrightarrow>
     execution g stage s inp [stage] (Suspended stage payload s)"
| exec_command:
    "stage \<noteq> START \<Longrightarrow> stage \<noteq> END \<Longrightarrow> map_of (nodes g) stage = Some h \<Longrightarrow>
     h s inp = Inr (Command goto u) \<Longrightarrow> goto = END \<or> goto \<in> set (registered g) \<Longrightarrow>
     execution g goto (merge g u s) None tr r \<Longrightarrow>
     execution g stage s inp (stage # tr) r"
| exec_bad_command:
    "stage \<noteq> START \<Longrightarrow> stage \<noteq> END \<Longrightarrow> map_of (nodes g) stage = Some h \<Longrightarrow>
     h s inp = Inr (Command goto u) \<Longrightarrow> goto \<noteq> END \<Longrightarrow> goto \<notin> set (registered g) \<Longrightarrow>
     execution g stage s inp [stage] (Aborted InvalidTransitionError)"
| exec_edge:
    "stage \<noteq> START \<Longrightarrow> stage \<noteq> END \<Longrightarrow> map_of (nodes g) stage = Some h \<Longrightarrow>
     h s inp = Inr (Update u) \<Longrightarrow> branches_of g stage = [] \<Longrightarrow> (stage, t) \<in> set (edges g) \<Longrightarrow>
     execution g t (merge g u s) None tr r \<Longrightarrow>
     execution g stage s inp (stage # tr) r"
| exec_route:
    "stage \<noteq> START \<Longrightarrow> stage \<noteq> END \<Longrightarrow> map_of (nodes g) stage = Some h \<Longrightarrow>
     h s inp = Inr (Update u) \<Longrightarrow> b \<in> set (branches_of g stage) \<Longrightarrow>
     router b (merge g u s) = (label, s') \<Longrightarrow> map_of (path_map b) label = Some t \<Longrightarrow>
     execution g t s' None tr r \<Longrightarrow>
     execution g stage s inp (stage # tr) r"
| exec_bad_route:
    "stage \<noteq> START \<Longrightarrow> stage \<noteq> END \<Longrightarrow> map_of (nodes g) stage = Some h \<Longrightarrow>
     h s inp = Inr (Update u) \<Longrightarrow> b \<in> set (branches_of g stage) \<Longrightarrow>
     router b (merge g u s) = (label, s') \<Longrightarrow> map_of (path_map b) label = None \<Longrightarrow>
     execution g stage s inp [stage] (Aborted RouterContractViolation)"

code_pred execution .

text \<open>
  A step from \<open>a\<close> to \<open>b\<close> that the graph routes explicitly: a declared edge, a target of
  a conditional edge of \<open>a\<close>, or a Command to \<open>b\<close> that the handler of \<open>a\<close> can issue.
\<close>

definition transition :: "('s, 'u, 'i) graph \<Rightarrow> string \<Rightarrow> string \<Rightarrow> bool" where
  "transition g a b =
     ((a, b) \<in> set (edges g)
      \<or> (\<exists>br \<in> set (branches_of g a). b \<in> snd ` set (path_map br))
      \<or> (\<exists>h s inp u. map_of (nodes g) a = Some h \<and> h s inp = Inr (Command b u)))"

text \<open>Every stage of a trace but the first is entered by such a step from its predecessor.\<close>

fun routed :: "('s, 'u, 'i) graph \<Rightarrow> string list \<Rightarrow> bool" where
  "routed g [] = True"
| "routed g [a] = True"
| "routed g (a # b # tr) = (transition g a b \<and> routed g (b # tr))"

text \<open>
  A stage has a single unconditional target and a single router: no two \<open>add_edge\<close> calls
  and no two \<open>add_conditional_edges\<close> calls name the same source.
\<close>

definition single_edges :: "('s, 'u, 'i) graph \<Rightarrow> bool" where
  "single_edges g = (distinct (map fst (edges g)) \<and> distinct (map source (conditional_edges g)))"

section \<open>Concrete inputs\<close>

definition earlier_result :: result_dict where
  "earlier_result = [(''title'', Some ''Earlier''), (''url'', Some ''https://example.com/a''),
                     (''content'', Some ''found before'')]"

definition new_result :: result_dict where
  "new_result = [(''title'', Some ''New''), (''url'', Some ''https://example.com/b''),
                 (''content'', Some ''found now'')]"

definition none_content_result :: result_dict where
  "none_content_result = [(''title'', Some ''T''), (''url'', Some ''https://example.com/c''),
                          (''content'', None)]"

definition example_state :: PersonalityBlogState where
  "example_state = \<lparr>person = ''Margot Robbie'', enneagram_type = ''2'', status = RESEARCHING,
     search_queries = [''margot robbie career''], search_results = [earlier_result],
     person_research = None, enneagram_research = None, content_outline = Some ''v1'',
     final_blog = None, outline_approved = False\<rparr>"

definition approved_state :: PersonalityBlogState where
  "approved_state = example_state\<lparr>outline_approved := True\<rparr>"

definition example_state_upb :: BlogUpdateState_upb where
  "example_state_upb = \<lparr>upb_blog_url = ''https://example.com/blog'', upb_current_content = None,
     upb_outline = None, upb_person = None, upb_enneagram_type = None, upb_suggestions = None,
     upb_search_queries = [''query one'', ''query two''], upb_search_results = [earlier_result],
     upb_proposed_outline = None\<rparr>"

definition example_state_ubg :: BlogUpdateState_ubg where
  "example_state_ubg = \<lparr>ubg_blog_url = ''https://example.com/blog'', ubg_current_content = None,
     ubg_summary = None, ubg_suggestions = None, ubg_search_queries = Some [],
     ubg_search_results = Some [], ubg_proposed_outline = Some ''Outline v1'',
     ubg_approved_outline = None, ubg_new_content = None, ubg_updated_blog = None\<rparr>"

definition empty_outline_state :: BlogUpdateState_ubg where
  "empty_outline_state = example_state_ubg\<lparr>ubg_proposed_outline := Some []\<rparr>"

definition fresh_service :: search_service where
  "fresh_service query = Inr [new_result]"

definition failing_service :: search_service where
  "failing_service query = Inl (ExternalCollaboratorError ''search failed'')"

definition second_query_fails :: search_service where
  "second_query_fails query =
     (if query = ''query two'' then Inl (ExternalCollaboratorError ''search failed'')
      else Inr [new_result])"

definition failing_loader :: loader where
  "failing_loader url = Inl (ExternalCollaboratorError ''connection refused'')"

definition empty_loader :: loader where
  "empty_loader url = Inr []"

definition page_loader :: loader where
  "page_loader url = Inr [\<lparr>page_content = ''Blog text''\<rparr>, \<lparr>page_content = ''second''\<rparr>]"

definition example_services_cpb :: services_cpb where
  "example_services_cpb =
     \<lparr>cpb_query_chain = (\<lambda>p t. Inr ([''margot robbie career''], [''enneagram type 2''])),
      cpb_tavily_search = fresh_service,
      cpb_research_chain = (\<lambda>p t r. Inr (''Person notes'', ''Enneagram notes'')),
      cpb_outline_chain = (\<lambda>p t pr er. Inr ''Outline v1''),
      cpb_blog_chain = (\<lambda>p t outline pr er. Inr ''Blog text'')\<rparr>"


definition example_services_ubg :: services_ubg where
  "example_services_ubg =
     \<lparr>ubg_load = page_loader,
      ubg_analyze_chain = (\<lambda>content. Inr (''Summary'', ''Add news'')),
      ubg_query_chain = (\<lambda>summary suggestions. Inr [''query one'']),
      ubg_tavily_search = fresh_service,
      ubg_outline_chain = (\<lambda>results. Inr ''Outline v2''),
      ubg_content_chain = (\<lambda>outline. Inr ''New content'')\<rparr>"

text \<open>The state of the example run when it is suspended again after a revision.\<close>

definition revised_state_ubg :: BlogUpdateState_ubg where
  "revised_state_ubg = example_state_ubg\<lparr>ubg_proposed_outline := Some ''Outline v2''\<rparr>"

text \<open>The states of the example run of createPersonalityBlog.py on an approved outline.\<close>

definition researched_state :: PersonalityBlogState where
  "researched_state = approved_state
     \<lparr>search_queries := [''margot robbie career'', ''enneagram type 2''],
      search_results := [new_result, new_result],
      person_research := Some ''Person notes'',
      enneagram_research := Some ''Enneagram notes''\<rparr>"

definition final_state :: PersonalityBlogState where
  "final_state = researched_state
     \<lparr>content_outline := Some ''Outline v1'', final_blog := Some ''Blog text'',
      status := BLOG_GENERATED\<rparr>"

text \<open>The states of the example run of updateBlogGraph.py.\<close>

definition initial_state_ubg :: BlogUpdateState_ubg where
  "initial_state_ubg = example_state_ubg\<lparr>ubg_proposed_outline := None\<rparr>"

definition suspended_state_ubg :: BlogUpdateState_ubg where
  "suspended_state_ubg = initial_state_ubg
     \<lparr>ubg_current_content := Some ''Blog text'', ubg_summary := Some ''Summary'',
      ubg_suggestions := Some ''Add news'', ubg_search_queries := Some [''query one''],
      ubg_search_results := Some [new_result], ubg_proposed_outline := Some ''Outline v2''\<rparr>"

definition completed_state_ubg :: BlogUpdateState_ubg where
  "completed_state_ubg = suspended_state_ubg
     \<lparr>ubg_approved_outline := Some ''Outline v2'', ubg_new_content := Some ''New content'',
      ubg_updated_blog :=
        Some (''Blog text'' @ NL @ NL @ ''## Updates'' @ NL @ NL @ ''New content'')\<rparr>"

section \<open>Properties of the formatting and search loops\<close>

text \<open>The excerpt the guarded versions of \<open>format_search_results\<close> print for a result.\<close>

definition excerpt :: "result_dict \<Rightarrow> string" where
  "excerpt result = take 500 (case dict_get result ''content'' None of None \<Rightarrow> [] | Some s \<Rightarrow> s)"

lemma excerpt_length: "length (excerpt result) \<le> 500"
  by (simp add: excerpt_def)

lemma content_preview_excerpt: "content_preview result = Inr (excerpt result)"
  by (cases "map_of result ''content''")
     (auto simp: content_preview_def excerpt_def dict_get_def split: option.splits)

lemma format_loop_blocks:
  "format_loop i rs formatted =
     Inr (formatted @ map (\<lambda>(j, r). result_block j r (excerpt r)) (zip [i ..< i + length rs] rs))"
proof (induction rs arbitrary: i formatted)
  case Nil
  then show ?case by simp
next
  case (Cons r rs)
  have "[i ..< i + length (r # rs)] = i # [Suc i ..< Suc i + length rs]"
    by (simp add: upt_rec)
  then show ?case
    by (simp add: content_preview_excerpt Cons.IH)
qed

lemma format_loop_upb_blocks:
  "format_loop_upb rs formatted = Inr (formatted @ map (\<lambda>r. result_block_upb r (excerpt r)) rs)"
  by (induction rs arbitrary: formatted) (simp_all add: content_preview_excerpt)

text \<open>
  The versions of createPersonalityBlog.py and updatePeopleBlogs.py never raise: they
  return the fixed sentence for the empty list and otherwise one block per result, in
  input order, with an excerpt of at most 500 characters.
\<close>

lemma format_search_results_total:
  "format_search_results rs =
     Inr (if rs = [] then ''No search results found.''
          else join (NL @ NL)
                 (map (\<lambda>(j, r). result_block j r (excerpt r)) (zip [0 ..< length rs] rs)))"
  by (simp add: format_search_results_def format_loop_blocks)

lemma format_search_results_upb_total:
  "format_search_results_upb rs =
     Inr (if rs = [] then ''No search results found.''
          else join NL (map (\<lambda>r. result_block_upb r (excerpt r)) rs))"
  by (simp add: format_search_results_upb_def format_loop_upb_blocks)

lemma search_loop_all_return:
  "\<forall>q \<in> set queries. tavily_search q = Inr (f q) \<Longrightarrow>
   search_loop tavily_search queries acc = Inr (acc @ concat (map f queries))"
  by (induction queries arbitrary: acc) auto

lemma search_loop_first_error:
  "\<forall>p \<in> set pre. \<exists>r. tavily_search p = Inr r \<Longrightarrow> tavily_search q = Inl e \<Longrightarrow>
   search_loop tavily_search (pre @ q # post) acc = Inl e"
  by (induction pre arbitrary: acc) auto

section \<open>Properties of execution\<close>


lemma single_edge_target:
  "single_edges g \<Longrightarrow> (a, t1) \<in> set (edges g) \<Longrightarrow> (a, t2) \<in> set (edges g) \<Longrightarrow> t1 = t2"
  by (auto simp: single_edges_def dest: eq_key_imp_eq_value)

lemma single_branch:
  assumes "single_edges g" and "b1 \<in> set (branches_of g a)" and "b2 \<in> set (branches_of g a)"
  shows "b1 = b2"
proof -
  from assms have "inj_on source (set (conditional_edges g))"
    by (simp add: single_edges_def distinct_map)
  moreover from assms have "b1 \<in> set (conditional_edges g)" "b2 \<in> set (conditional_edges g)"
      "source b1 = source b2"
    by (auto simp: branches_of_def)
  ultimately show ?thesis by (auto dest: inj_onD)
qed

lemma execution_trace_head:
  "execution g stage s inp tr r \<Longrightarrow> tr = [] \<or> hd tr = stage"
  by (induction rule: execution.induct) auto

lemma routed_Cons:
  "routed g tr \<Longrightarrow> tr = [] \<or> transition g a (hd tr) \<Longrightarrow> routed g (a # tr)"
  by (cases tr) auto

lemma execution_routed:
  "execution g stage s inp tr r \<Longrightarrow> routed g tr"
proof (induction rule: execution.induct)
  case (exec_start t s tr r inp)
  from exec_start.hyps(3) have "tr = [] \<or> hd tr = t" by (rule execution_trace_head)
  with exec_start show ?case
    by (intro routed_Cons) (auto simp: transition_def)
next
  case (exec_command stage h s inp goto u tr r)
  from exec_command.hyps(6) have "tr = [] \<or> hd tr = goto" by (rule execution_trace_head)
  with exec_command show ?case
    by (intro routed_Cons) (auto simp: transition_def)
next
  case (exec_edge stage h s inp u t tr r)
  from exec_edge.hyps(7) have "tr = [] \<or> hd tr = t" by (rule execution_trace_head)
  with exec_edge show ?case
    by (intro routed_Cons) (auto simp: transition_def)
next
  case (exec_route stage h s inp u b label s' t tr r)
  from exec_route.hyps(8) have "tr = [] \<or> hd tr = t" by (rule execution_trace_head)
  moreover from exec_route.hyps(7) have "t \<in> snd ` set (path_map b)"
    by (force dest: map_of_SomeD)
  ultimately show ?case using exec_route
    by (intro routed_Cons) (auto simp: transition_def)
qed simp_all

text \<open>
  With single edges the executor has one way to go on from every stage and state: two
  executions from the same stage, state and input have the same trace and the same result.
\<close>

lemma execution_functional:
  assumes "single_edges g"
  shows "execution g stage s inp tr1 r1 \<Longrightarrow> execution g stage s inp tr2 r2 \<Longrightarrow>
         tr1 = tr2 \<and> r1 = r2"
proof (induction arbitrary: tr2 r2 rule: execution.induct)
  case (exec_end s inp)
  from exec_end show ?case by (cases rule: execution.cases) auto
next
  case (exec_start t s tr r inp)
  from exec_start.prems exec_start.hyps(1) show ?case
  proof (cases rule: execution.cases)
    case (exec_start t' tr')
    with single_edge_target [OF assms exec_start.hyps(2)] have "t' = t" by simp
    with exec_start exec_start.IH show ?thesis by simp
  qed auto
next
  case (exec_unregistered stage s inp)
  from exec_unregistered.prems exec_unregistered.hyps show ?case
    by (cases rule: execution.cases) auto
next
  case (exec_raise stage h s inp e)
  from exec_raise.prems exec_raise.hyps show ?case
    by (cases rule: execution.cases) auto
next
  case (exec_suspend stage h s inp payload)
  from exec_suspend.prems exec_suspend.hyps show ?case
    by (cases rule: execution.cases) auto
next
  case (exec_command stage h s inp goto u tr r)
  from exec_command.prems exec_command.hyps(1-5) show ?case
  proof (cases rule: execution.cases)
    case (exec_command h' goto' u' tr')
    with exec_command.hyps(3,4) have "goto' = goto" "u' = u" by simp_all
    with exec_command exec_command.IH show ?thesis by simp
  qed auto
next
  case (exec_bad_command stage h s inp goto u)
  from exec_bad_command.prems exec_bad_command.hyps show ?case
    by (cases rule: execution.cases) auto
next
  case (exec_edge stage h s inp u t tr r)
  from exec_edge.prems exec_edge.hyps(1-6) show ?case
  proof (cases rule: execution.cases)
    case (exec_edge h' u' t' tr')
    with exec_edge.hyps(3,4) single_edge_target [OF assms exec_edge.hyps(6)]
    have "u' = u" "t' = t" by simp_all
    with exec_edge exec_edge.IH show ?thesis by simp
  qed auto
next
  case (exec_route stage h s inp u b label s' t tr r)
  from exec_route.prems exec_route.hyps(1-7) show ?case
  proof (cases rule: execution.cases)
    case (exec_route h' u' b' label' s'' t' tr')
    with exec_route.hyps(3,4) single_branch [OF assms exec_route.hyps(5)]
    have "u' = u" "b' = b" by simp_all
    with exec_route exec_route.hyps(6,7) have "s'' = s'" "t' = t" by simp_all
    with exec_route exec_route.IH show ?thesis by simp
  next
    case (exec_bad_route h' u' b' label' s'')
    with exec_route.hyps(3,4) single_branch [OF assms exec_route.hyps(5)]
    have "u' = u" "b' = b" by simp_all
    with exec_bad_route exec_route.hyps(6,7) show ?thesis by simp
  qed auto
next
  case (exec_bad_route stage h s inp u b label s')
  from exec_bad_route.prems exec_bad_route.hyps(1-7) show ?case
  proof (cases rule: execution.cases)
    case (exec_route h' u' b' label' s'' t' tr')
    with exec_bad_route.hyps(3,4) single_branch [OF assms exec_bad_route.hyps(5)]
    have "u' = u" "b' = b" by simp_all
    with exec_route exec_bad_route.hyps(6,7) show ?thesis by simp
  next
    case (exec_bad_route h' u' b' label' s'')
    then show ?thesis by simp
  qed auto
qed

text \<open>A run that starts at a reachable stage visits reachable stages only.\<close>

lemma execution_visits_reachable:
  "execution g stage s inp tr r \<Longrightarrow> reachable g stage \<Longrightarrow> x \<in> set tr \<Longrightarrow> reachable g x"
proof (induction rule: execution.induct)
  case (exec_start t s tr r inp)
  have "t \<in> set (out_targets g START)"
    using exec_start.hyps(2) by (force simp: out_targets_def)
  with exec_start.prems(1) have "reachable g t" by (rule reachable_edge)
  with exec_start show ?case by auto
next
  case (exec_command stage h s inp goto u tr r)
  show ?case
  proof (cases "x = stage")
    case True
    with exec_command.prems show ?thesis by simp
  next
    case False
    with exec_command.prems have x: "x \<in> set tr" by simp
    from exec_command.hyps(6) have "tr = [] \<or> goto \<noteq> END"
      by (cases rule: execution.cases) auto
    with x exec_command.hyps(5) have "goto \<in> set (registered g)" by auto
    with exec_command.prems(1) exec_command.hyps(3,4) have "reachable g goto"
      by (rule reachable_command)
    with x exec_command.IH show ?thesis by simp
  qed
next
  case (exec_edge stage h s inp u t tr r)
  have "t \<in> set (out_targets g stage)"
    using exec_edge.hyps(6) by (force simp: out_targets_def)
  with exec_edge.prems(1) have "reachable g t" by (rule reachable_edge)
  with exec_edge show ?case by auto
next
  case (exec_route stage h s inp u b label s' t tr r)
  from exec_route.hyps(7) have "t \<in> snd ` set (path_map b)"
    by (force dest: map_of_SomeD)
  with exec_route.hyps(5) have "t \<in> set (out_targets g stage)"
    by (auto simp: out_targets_def)
  with exec_route.prems(1) have "reachable g t" by (rule reachable_edge)
  with exec_route show ?case by auto
qed auto

subsection \<open>The builders of the repository\<close>

lemma START_END: "START \<noteq> END"
  by (simp add: START_def END_def)

lemma exec_edge_to:
  "stage \<noteq> START \<Longrightarrow> stage \<noteq> END \<Longrightarrow> map_of (nodes g) stage = Some h \<Longrightarrow>
   h s inp = Inr (Update u) \<Longrightarrow> branches_of g stage = [] \<Longrightarrow> (stage, t) \<in> set (edges g) \<Longrightarrow>
   merge g u s = s' \<Longrightarrow> execution g t s' None tr r \<Longrightarrow>
   execution g stage s inp (stage # tr) r"
  by (auto intro: exec_edge)

lemma exec_command_to:
  "stage \<noteq> START \<Longrightarrow> stage \<noteq> END \<Longrightarrow> map_of (nodes g) stage = Some h \<Longrightarrow>
   h s inp = Inr (Command goto u) \<Longrightarrow> goto \<in> set (registered g) \<Longrightarrow>
   merge g u s = s' \<Longrightarrow> execution g goto s' None tr r \<Longrightarrow>
   execution g stage s inp (stage # tr) r"
  by (auto intro: exec_command)


lemma builder_cpb_lookup:
  "map_of (nodes (builder_cpb ext)) ''generate_search_queries''
     = Some (node (generate_search_queries (cpb_query_chain ext)))"
  "map_of (nodes (builder_cpb ext)) ''search_web'' = Some (node (search_web (cpb_tavily_search ext)))"
  "map_of (nodes (builder_cpb ext)) ''organize_research''
     = Some (node (organize_research (cpb_research_chain ext)))"
  "map_of (nodes (builder_cpb ext)) ''create_content_outline''
     = Some (node (create_content_outline (cpb_outline_chain ext)))"
  "map_of (nodes (builder_cpb ext)) ''generate_blog_content''
     = Some (node (generate_blog_content (cpb_blog_chain ext)))"
  by (simp_all add: builder_cpb_def)

lemma builder_cpb_structure:
  "edges (builder_cpb ext) =
     [(START, ''generate_search_queries''), (''generate_search_queries'', ''search_web''),
      (''search_web'', ''organize_research''), (''organize_research'', ''create_content_outline''),
      (''update_and_approve_outline'', ''check_outline_approval''), (''generate_blog_content'', END)]"
  "branches_of (builder_cpb ext) stage =
     (if stage = ''create_content_outline''
      then [\<lparr>source = ''create_content_outline'', router = check_outline_approval,
             labels = [''approved'', ''not_approved''], path_map = outline_approval_path_map\<rparr>]
      else [])"
  "merge (builder_cpb ext) u s = u"
  "conditional_edges (builder_cpb ext) =
     [\<lparr>source = ''create_content_outline'', router = check_outline_approval,
       labels = [''approved'', ''not_approved''], path_map = outline_approval_path_map\<rparr>]"
  "registered (builder_cpb ext) =
     [''generate_search_queries'', ''search_web'', ''organize_research'',
      ''create_content_outline'', ''check_outline_approval'', ''update_and_approve_outline'',
      ''generate_blog_content'']"
  by (simp_all add: builder_cpb_def branches_of_def registered_def)

lemma builder_ubg_lookup:
  "map_of (nodes (builder_ubg ext)) ''fetch_blog_content''
     = Some (node (fetch_blog_content_ubg (ubg_load ext)))"
  "map_of (nodes (builder_ubg ext)) ''analyze_content''
     = Some (node (analyze_content_ubg (ubg_analyze_chain ext)))"
  "map_of (nodes (builder_ubg ext)) ''generate_search_queries''
     = Some (node (generate_search_queries_ubg (ubg_query_chain ext)))"
  "map_of (nodes (builder_ubg ext)) ''search_web'' = Some (node (search_web_ubg (ubg_tavily_search ext)))"
  "map_of (nodes (builder_ubg ext)) ''create_outline''
     = Some (node (create_outline_ubg (ubg_outline_chain ext)))"
  "map_of (nodes (builder_ubg ext)) ''human_feedback''
     = Some (\<lambda>state resume. Inr (human_feedback state resume))"
  "map_of (nodes (builder_ubg ext)) ''generate_new_content''
     = Some (node (generate_new_content_ubg (ubg_content_chain ext)))"
  "map_of (nodes (builder_ubg ext)) ''update_blog'' = Some (node update_blog_ubg)"
  by (simp_all add: builder_ubg_def)

lemma builder_ubg_structure:
  "edges (builder_ubg ext) =
     [(START, ''fetch_blog_content''), (''fetch_blog_content'', ''analyze_content''),
      (''analyze_content'', ''generate_search_queries''), (''generate_search_queries'', ''search_web''),
      (''search_web'', ''create_outline''), (''create_outline'', ''human_feedback''),
      (''generate_new_content'', ''update_blog''), (''update_blog'', END)]"
  "branches_of (builder_ubg ext) stage = []"
  "merge (builder_ubg ext) = merge_ubg"
  "registered (builder_ubg ext) =
     [''fetch_blog_content'', ''analyze_content'', ''generate_search_queries'', ''search_web'',
      ''create_outline'', ''human_feedback'', ''generate_new_content'', ''update_blog'']"
  "conditional_edges (builder_ubg ext) = []"
  by (simp_all add: builder_ubg_def branches_of_def registered_def)


text \<open>In the three builders every source has one edge.\<close>

lemma single_edges_builder_cpb: "single_edges (builder_cpb ext)"
  by (simp add: single_edges_def builder_cpb_def START_def)

lemma single_edges_builder_ubg: "single_edges (builder_ubg ext)"
  by (simp add: single_edges_def builder_ubg_def START_def)

lemma single_edges_builder_upb: "single_edges (builder_upb ext)"
  by (simp add: single_edges_def builder_upb_def START_def)













subsection \<open>Example runs\<close>

text \<open>
  createPersonalityBlog.py on a state whose outline is already approved: the run goes
  through the router to \<open>generate_blog_content\<close> and completes.
\<close>

lemma approved_run:
  "execution (builder_cpb example_services_cpb) START approved_state None
     [START, ''generate_search_queries'', ''search_web'', ''organize_research'',
      ''create_content_outline'', ''generate_blog_content'']
     (Completed final_state)"
proof -
  let ?g = "builder_cpb example_services_cpb"
  let ?s1 = "approved_state\<lparr>search_queries := [''margot robbie career'', ''enneagram type 2'']\<rparr>"
  let ?s2 = "?s1\<lparr>search_results := [new_result, new_result]\<rparr>"
  let ?s4 = "researched_state\<lparr>content_outline := Some ''Outline v1'', status := OUTLINE_CREATED\<rparr>"
  let ?br = "\<lparr>source = ''create_content_outline'', router = check_outline_approval,
               labels = [''approved'', ''not_approved''], path_map = outline_approval_path_map\<rparr>"
  note names = START_def END_def
  have e6: "execution ?g END final_state None [] (Completed final_state)"
    by (rule exec_end)
  have e5: "execution ?g ''generate_blog_content'' (?s4\<lparr>status := OUTLINE_APPROVED\<rparr>) None
              [''generate_blog_content''] (Completed final_state)"
    by (rule exec_edge_to [OF _ _ builder_cpb_lookup(5) _ _ _ _ e6])
       (simp_all add: names builder_cpb_structure node_def generate_blog_content_def
          example_services_cpb_def final_state_def)
  have e4: "execution ?g ''create_content_outline'' researched_state None
              [''create_content_outline'', ''generate_blog_content''] (Completed final_state)"
    by (rule exec_route [OF _ _ builder_cpb_lookup(4) _ _ _ _ e5,
             where u = ?s4 and label = "''approved''" and b = ?br])
       (simp_all add: names builder_cpb_structure node_def create_content_outline_def
          example_services_cpb_def check_outline_approval_def outline_approval_path_map_def
          researched_state_def approved_state_def)
  have e3: "execution ?g ''organize_research'' ?s2 None
              [''organize_research'', ''create_content_outline'', ''generate_blog_content'']
              (Completed final_state)"
    by (rule exec_edge_to [OF _ _ builder_cpb_lookup(3) _ _ _ _ e4, where u = researched_state])
       (simp_all add: names builder_cpb_structure node_def organize_research_def
          format_search_results_total example_services_cpb_def researched_state_def)
  have e2: "execution ?g ''search_web'' ?s1 None
              [''search_web'', ''organize_research'', ''create_content_outline'',
               ''generate_blog_content'']
              (Completed final_state)"
    by (rule exec_edge_to [OF _ _ builder_cpb_lookup(2) _ _ _ _ e3, where u = ?s2])
       (simp_all add: names builder_cpb_structure node_def search_web_def
          example_services_cpb_def fresh_service_def)
  have e1: "execution ?g ''generate_search_queries'' approved_state None
              [''generate_search_queries'', ''search_web'', ''organize_research'',
               ''create_content_outline'', ''generate_blog_content'']
              (Completed final_state)"
    by (rule exec_edge_to [OF _ _ builder_cpb_lookup(1) _ _ _ _ e2, where u = ?s1])
       (simp_all add: names builder_cpb_structure node_def generate_search_queries_def
          example_services_cpb_def)
  show ?thesis
    by (rule exec_start [OF START_END _ e1]) (simp add: builder_cpb_structure)
qed

text \<open>
  updateBlogGraph.py: the run from START is suspended at \<open>human_feedback\<close> with the
  proposed outline in the payload.
\<close>

lemma run_until_feedback:
  "execution (builder_ubg example_services_ubg) START initial_state_ubg None
     [START, ''fetch_blog_content'', ''analyze_content'', ''generate_search_queries'',
      ''search_web'', ''create_outline'', ''human_feedback'']
     (Suspended ''human_feedback'' (interrupt_payload ''Outline v2'') suspended_state_ubg)"
proof -
  let ?g = "builder_ubg example_services_ubg"
  let ?s1 = "initial_state_ubg\<lparr>ubg_current_content := Some ''Blog text''\<rparr>"
  let ?s2 = "?s1\<lparr>ubg_summary := Some ''Summary'', ubg_suggestions := Some ''Add news''\<rparr>"
  let ?s3 = "?s2\<lparr>ubg_search_queries := Some [''query one'']\<rparr>"
  let ?s4 = "?s3\<lparr>ubg_search_results := Some [new_result]\<rparr>"
  let ?r = "Suspended ''human_feedback'' (interrupt_payload ''Outline v2'') suspended_state_ubg"
  note names = START_def END_def
  note ubg_facts = builder_ubg_structure merge_ubg_def node_def example_services_ubg_def
  have e6: "execution ?g ''human_feedback'' suspended_state_ubg None [''human_feedback''] ?r"
    by (rule exec_suspend [OF _ _ builder_ubg_lookup(6)])
       (simp_all add: names human_feedback_def or_default_def suspended_state_ubg_def)
  have e5: "execution ?g ''create_outline'' ?s4 None [''create_outline'', ''human_feedback''] ?r"
    by (rule exec_edge_to [OF _ _ builder_ubg_lookup(5) _ _ _ _ e6,
             where u = "[Set_proposed_outline ''Outline v2'']"])
       (simp_all add: names ubg_facts create_outline_ubg_def format_search_results_ubg_def
          content_preview_ubg_def dict_get_def new_result_def suspended_state_ubg_def)
  have e4: "execution ?g ''search_web'' ?s3 None
              [''search_web'', ''create_outline'', ''human_feedback''] ?r"
    by (rule exec_edge_to [OF _ _ builder_ubg_lookup(4) _ _ _ _ e5,
             where u = "[Set_search_results [new_result]]"])
       (simp_all add: names ubg_facts search_web_ubg_def fresh_service_def)
  have e3: "execution ?g ''generate_search_queries'' ?s2 None
              [''generate_search_queries'', ''search_web'', ''create_outline'', ''human_feedback''] ?r"
    by (rule exec_edge_to [OF _ _ builder_ubg_lookup(3) _ _ _ _ e4,
             where u = "[Set_search_queries [''query one'']]"])
       (simp_all add: names ubg_facts generate_search_queries_ubg_def)
  have e2: "execution ?g ''analyze_content'' ?s1 None
              [''analyze_content'', ''generate_search_queries'', ''search_web'',
               ''create_outline'', ''human_feedback''] ?r"
    by (rule exec_edge_to [OF _ _ builder_ubg_lookup(2) _ _ _ _ e3,
             where u = "[Set_summary ''Summary'', Set_suggestions ''Add news'']"])
       (simp_all add: names ubg_facts analyze_content_ubg_def)
  have e1: "execution ?g ''fetch_blog_content'' initial_state_ubg None
              [''fetch_blog_content'', ''analyze_content'', ''generate_search_queries'',
               ''search_web'', ''create_outline'', ''human_feedback''] ?r"
    by (rule exec_edge_to [OF _ _ builder_ubg_lookup(1) _ _ _ _ e2,
             where u = "[Set_current_content ''Blog text'']"])
       (simp_all add: names ubg_facts fetch_blog_content_ubg_def page_loader_def
          initial_state_ubg_def example_state_ubg_def)
  show ?thesis
    by (rule exec_start [OF START_END _ e1]) (simp add: builder_ubg_structure)
qed

text \<open>
  Resumed with a revision, the run goes back to \<open>create_outline\<close> by Command and is
  suspended at \<open>human_feedback\<close> again.
\<close>

lemma revision_loop:
  "execution (builder_ubg example_services_ubg) ''human_feedback'' example_state_ubg
     (Some (PyStr ''add section Y''))
     [''human_feedback'', ''create_outline'', ''human_feedback'']
     (Suspended ''human_feedback'' (interrupt_payload ''Outline v2'') revised_state_ubg)"
proof -
  let ?g = "builder_ubg example_services_ubg"
  let ?s1 = "example_state_ubg\<lparr>ubg_proposed_outline := Some ''add section Y''\<rparr>"
  let ?r = "Suspended ''human_feedback'' (interrupt_payload ''Outline v2'') revised_state_ubg"
  note names = START_def END_def
  note ubg_facts = builder_ubg_structure merge_ubg_def node_def example_services_ubg_def
  have not_approve: "lower (strip ''add section Y'') \<noteq> ''approve''" by code_simp
  have e3: "execution ?g ''human_feedback'' revised_state_ubg None [''human_feedback''] ?r"
    by (rule exec_suspend [OF _ _ builder_ubg_lookup(6)])
       (simp_all add: names human_feedback_def or_default_def revised_state_ubg_def)
  have e2: "execution ?g ''create_outline'' ?s1 None [''create_outline'', ''human_feedback''] ?r"
    by (rule exec_edge_to [OF _ _ builder_ubg_lookup(5) _ _ _ _ e3,
             where u = "[Set_proposed_outline ''Outline v2'']"])
       (simp_all add: names ubg_facts create_outline_ubg_def format_search_results_ubg_def
          example_state_ubg_def revised_state_ubg_def)
  show ?thesis
    by (rule exec_command_to [OF _ _ builder_ubg_lookup(6) _ _ _ e2,
             where u = "[Set_proposed_outline ''add section Y'']"])
       (simp_all add: names ubg_facts human_feedback_def not_approve)
qed

text \<open>
  Resumed with an approval, the run goes on to \<open>generate_new_content\<close> by Command and
  completes.
\<close>

lemma approval_completes:
  "execution (builder_ubg example_services_ubg) ''human_feedback'' suspended_state_ubg
     (Some (PyStr ''approve''))
     [''human_feedback'', ''generate_new_content'', ''update_blog'']
     (Completed completed_state_ubg)"
proof -
  let ?g = "builder_ubg example_services_ubg"
  let ?s1 = "suspended_state_ubg\<lparr>ubg_approved_outline := Some ''Outline v2''\<rparr>"
  let ?s2 = "?s1\<lparr>ubg_new_content := Some ''New content''\<rparr>"
  note names = START_def END_def
  note ubg_facts = builder_ubg_structure merge_ubg_def node_def example_services_ubg_def
  have approve: "lower (strip ''approve'') = ''approve''" by code_simp
  have e4: "execution ?g END completed_state_ubg None [] (Completed completed_state_ubg)"
    by (rule exec_end)
  have e3: "execution ?g ''update_blog'' ?s2 None [''update_blog''] (Completed completed_state_ubg)"
    by (rule exec_edge_to [OF _ _ builder_ubg_lookup(8) _ _ _ _ e4,
             where u = "[Set_updated_blog
                           (''Blog text'' @ NL @ NL @ ''## Updates'' @ NL @ NL @ ''New content'')]"])
       (simp_all add: names ubg_facts update_blog_ubg_def or_default_def
          suspended_state_ubg_def completed_state_ubg_def)
  have e2: "execution ?g ''generate_new_content'' ?s1 None
              [''generate_new_content'', ''update_blog''] (Completed completed_state_ubg)"
    by (rule exec_edge_to [OF _ _ builder_ubg_lookup(7) _ _ _ _ e3,
             where u = "[Set_new_content ''New content'']"])
       (simp_all add: names ubg_facts generate_new_content_ubg_def)
  show ?thesis
    by (rule exec_command_to [OF _ _ builder_ubg_lookup(6) _ _ _ e2,
             where u = "[Set_approved_outline ''Outline v2'']"])
       (simp_all add: names ubg_facts human_feedback_def or_default_def approve
          suspended_state_ubg_def)
qed

section \<open>The claims\<close>

subsection \<open>Resuming at human_feedback\<close>

lemma approve_variants:
  "lower (strip ''  Approve '') = ''approve''"
  "lower (strip ''add section Y'') \<noteq> ''approve''"
  "lower (strip ''approve'') = ''approve''"
  by code_simp+

text \<open>
  C1, as the code has it. When the run suspended at \<open>human_feedback\<close> is resumed with the
  external input \<open>I\<close>, the handler returns a Command. If \<open>I\<close> is a string that, stripped
  and lower-cased, equals "approve", the Command targets \<open>generate_new_content\<close> and its
  update sets \<open>approved_outline\<close> to the current \<open>proposed_outline\<close>, or to
  "No outline was generated." when \<open>proposed_outline\<close> is \<open>None\<close> or the empty string.
  For any other string the Command targets \<open>create_outline\<close> and sets \<open>proposed_outline\<close>
  to \<open>I\<close>; for a value that is not a string it sets \<open>proposed_outline\<close> to the empty string.
\<close>

theorem human_feedback_resume:
  "(\<exists>goto update. human_feedback s (Some I) = Command goto update)
   \<and> (I = PyStr t \<and> lower (strip t) = ''approve'' \<longrightarrow>
        human_feedback s (Some I) =
          Command ''generate_new_content''
            [Set_approved_outline
               (if ubg_proposed_outline s = None \<or> ubg_proposed_outline s = Some []
                then ''No outline was generated.'' else the (ubg_proposed_outline s))])
   \<and> (I = PyStr t \<and> lower (strip t) \<noteq> ''approve'' \<longrightarrow>
        human_feedback s (Some I) = Command ''create_outline'' [Set_proposed_outline t])
   \<and> ((\<forall>t. I \<noteq> PyStr t) \<longrightarrow>
        human_feedback s (Some I) = Command ''create_outline'' [Set_proposed_outline []])"
  by (cases I; cases "ubg_proposed_outline s")
     (auto simp: human_feedback_def or_default_def Let_def)

theorem human_feedback_resume_witness:
  "human_feedback example_state_ubg (Some (PyStr ''  Approve '')) =
     Command ''generate_new_content'' [Set_approved_outline ''Outline v1'']
   \<and> human_feedback example_state_ubg (Some (PyStr ''add section Y'')) =
     Command ''create_outline'' [Set_proposed_outline ''add section Y'']
   \<and> human_feedback example_state_ubg (Some (PyInt 7)) =
     Command ''create_outline'' [Set_proposed_outline []]"
  using human_feedback_resume [of example_state_ubg "PyStr ''  Approve ''" "''  Approve ''"]
        human_feedback_resume [of example_state_ubg "PyStr ''add section Y''" "''add section Y''"]
        human_feedback_resume [of example_state_ubg "PyInt 7" "[]"]
        approve_variants
  by (simp add: example_state_ubg_def)

text \<open>
  C1 as stated fails when \<open>proposed_outline\<close> is the empty string: it is not \<open>None\<close>, yet
  the approved outline is the fallback sentence and not the current \<open>proposed_outline\<close>.
\<close>

theorem human_feedback_empty_outline_counterexample:
  "ubg_proposed_outline empty_outline_state = Some []
   \<and> human_feedback empty_outline_state (Some (PyStr ''approve'')) =
       Command ''generate_new_content'' [Set_approved_outline ''No outline was generated.'']
   \<and> human_feedback empty_outline_state (Some (PyStr ''approve'')) \<noteq>
       Command ''generate_new_content''
         [Set_approved_outline (the (ubg_proposed_outline empty_outline_state))]"
  using approve_variants(3)
  by (simp add: human_feedback_def or_default_def empty_outline_state_def example_state_ubg_def)

subsection \<open>The router check_outline_approval\<close>

text \<open>
  C2. For every state the label returned by \<open>check_outline_approval\<close> is a key of the
  label map declared for \<open>create_content_outline\<close>: it is "approved" exactly when
  \<open>outline_approved\<close> is true and "not_approved" otherwise, so resolving the label never
  ends in \<open>RouterContractViolation\<close>.
\<close>

theorem check_outline_approval_label:
  "fst (check_outline_approval s) \<in> set (map fst outline_approval_path_map)
   \<and> (fst (check_outline_approval s) = ''approved'') = outline_approved s
   \<and> (fst (check_outline_approval s) = ''not_approved'') = (\<not> outline_approved s)
   \<and> route (map fst outline_approval_path_map) check_outline_approval s
       = Inr (if outline_approved s then ''approved'' else ''not_approved'')
   \<and> route (map fst outline_approval_path_map) check_outline_approval s
       \<noteq> Inl RouterContractViolation"
  by (simp add: check_outline_approval_def outline_approval_path_map_def route_def)

text \<open>
  C7 as stated fails: on a state whose \<open>outline_approved\<close> is true the router assigns
  \<open>status\<close>.
\<close>

theorem check_outline_approval_writes_status_counterexample:
  "status approved_state = RESEARCHING
   \<and> status (snd (check_outline_approval approved_state)) = OUTLINE_APPROVED
   \<and> snd (check_outline_approval approved_state) \<noteq> approved_state"
proof -
  have 1: "status approved_state = RESEARCHING"
    by (simp add: approved_state_def example_state_def)
  have 2: "status (snd (check_outline_approval approved_state)) = OUTLINE_APPROVED"
    by (simp add: check_outline_approval_def approved_state_def)
  from 1 2 have "snd (check_outline_approval approved_state) \<noteq> approved_state"
    by auto
  with 1 2 show ?thesis by simp
qed

text \<open>
  C7, as the code has it. Evaluating \<open>check_outline_approval\<close> leaves every field other
  than \<open>status\<close> unchanged (in particular \<open>outline_approved\<close>); \<open>status\<close> becomes
  \<open>OUTLINE_APPROVED\<close> when \<open>outline_approved\<close> is true and is unchanged otherwise.
\<close>

theorem check_outline_approval_frame:
  "snd (check_outline_approval s) =
     s\<lparr>status := (if outline_approved s then OUTLINE_APPROVED else status s)\<rparr>"
  by (simp add: check_outline_approval_def)

subsection \<open>The search stage\<close>

text \<open>
  C4 as stated fails: the earlier result is gone after the stage, and the new results do
  not begin with it.
\<close>

theorem search_web_overwrites_counterexample:
  "search_results example_state = [earlier_result]
   \<and> search_web fresh_service example_state = Inr (example_state\<lparr>search_results := [new_result]\<rparr>)
   \<and> \<not> prefix (search_results example_state) [new_result]"
  by (simp add: search_web_def example_state_def fresh_service_def earlier_result_def new_result_def)

text \<open>
  C4, as the code has it. The search-results field is a replace field: when every call of
  the search service returns, the \<open>search_results\<close> after the stage are the results of the
  queries, concatenated in query order, whatever the field held before.
\<close>

theorem search_web_replaces_results:
  "((\<forall>q \<in> set (search_queries s). tavily_search q = Inr (f q)) \<longrightarrow>
      search_web tavily_search s = Inr (s\<lparr>search_results := concat (map f (search_queries s))\<rparr>))
   \<and> ((\<forall>q \<in> set (upb_search_queries t). tavily_search q = Inr (f q)) \<longrightarrow>
      search_web_upb tavily_search t =
        Inr (t\<lparr>upb_search_results := concat (map f (upb_search_queries t))\<rparr>))"
proof (intro conjI impI)
  assume "\<forall>q \<in> set (search_queries s). tavily_search q = Inr (f q)"
  then have "search_loop tavily_search (search_queries s) []
               = Inr ([] @ concat (map f (search_queries s)))"
    by (rule search_loop_all_return)
  then show "search_web tavily_search s
               = Inr (s\<lparr>search_results := concat (map f (search_queries s))\<rparr>)"
    by (simp add: search_web_def)
next
  assume "\<forall>q \<in> set (upb_search_queries t). tavily_search q = Inr (f q)"
  then have "search_loop tavily_search (upb_search_queries t) []
               = Inr ([] @ concat (map f (upb_search_queries t)))"
    by (rule search_loop_all_return)
  then show "search_web_upb tavily_search t =
        Inr (t\<lparr>upb_search_results := concat (map f (upb_search_queries t))\<rparr>)"
    by (simp add: search_web_upb_def)
qed

theorem search_web_replaces_results_witness:
  "search_web fresh_service example_state = Inr (example_state\<lparr>search_results := [new_result]\<rparr>)
   \<and> search_web_upb fresh_service example_state_upb =
       Inr (example_state_upb\<lparr>upb_search_results := [new_result, new_result]\<rparr>)"
  using search_web_replaces_results
          [of example_state fresh_service "\<lambda>q. [new_result]" example_state_upb]
  by (simp add: fresh_service_def example_state_def example_state_upb_def)

text \<open>
  C5 as stated fails: with a search service that raises, \<open>search_web\<close> raises the same
  error and returns no state.
\<close>

theorem search_web_error_counterexample:
  "search_web failing_service example_state = Inl (ExternalCollaboratorError ''search failed'')
   \<and> search_web_upb failing_service example_state_upb
       = Inl (ExternalCollaboratorError ''search failed'')"
  by (simp add: search_web_def search_web_upb_def failing_service_def example_state_def
        example_state_upb_def)

text \<open>
  C5, as the code has it. \<open>search_web\<close> has no local error handling: when the calls for
  the queries before \<open>q\<close> return and the call for \<open>q\<close> raises \<open>e\<close>, the stage raises \<open>e\<close>;
  no fallback value is merged.
\<close>

theorem search_web_propagates_error:
  assumes "\<forall>p \<in> set pre. \<exists>r. tavily_search p = Inr r" and "tavily_search q = Inl e"
  shows "(search_queries s = pre @ q # post \<longrightarrow> search_web tavily_search s = Inl e)
       \<and> (upb_search_queries t = pre @ q # post \<longrightarrow> search_web_upb tavily_search t = Inl e)"
  using assms by (simp add: search_web_def search_web_upb_def search_loop_first_error)

theorem search_web_propagates_error_witness:
  "search_web failing_service example_state = Inl (ExternalCollaboratorError ''search failed'')
   \<and> search_web_upb second_query_fails example_state_upb
       = Inl (ExternalCollaboratorError ''search failed'')"
  using search_web_propagates_error [of "[]" failing_service "''margot robbie career''"
          "ExternalCollaboratorError ''search failed''" example_state "[]" example_state_upb]
        search_web_propagates_error [of "[''query one'']" second_query_fails "''query two''"
          "ExternalCollaboratorError ''search failed''" example_state "[]" example_state_upb]
  by (simp add: failing_service_def second_query_fails_def example_state_def example_state_upb_def)

subsection \<open>Fetching the blog\<close>

text \<open>
  C6. \<open>fetch_blog_content\<close> of updatePeopleBlogs.py always returns a state: when loading
  raises \<open>e\<close>, \<open>current_content\<close> is "Error loading blog: " followed by the text of \<open>e\<close>;
  when loading yields no documents or an empty first page, it is the sentence
  "No content could be loaded from the blog URL."; otherwise it is the first document's
  page content. In every case \<open>current_content\<close> is not \<open>None\<close>.
\<close>

theorem fetch_blog_content_absorbs_errors:
  "(load (upb_blog_url s) = Inl e \<longrightarrow>
      fetch_blog_content_upb load s =
        s\<lparr>upb_current_content := Some (''Error loading blog: '' @ str_error e)\<rparr>)
   \<and> (load (upb_blog_url s) = Inr docs \<and> (docs = [] \<or> page_content (hd docs) = []) \<longrightarrow>
      fetch_blog_content_upb load s =
        s\<lparr>upb_current_content := Some ''No content could be loaded from the blog URL.''\<rparr>)
   \<and> (load (upb_blog_url s) = Inr docs \<and> docs \<noteq> [] \<and> page_content (hd docs) \<noteq> [] \<longrightarrow>
      fetch_blog_content_upb load s = s\<lparr>upb_current_content := Some (page_content (hd docs))\<rparr>)
   \<and> upb_current_content (fetch_blog_content_upb load s) \<noteq> None"
  by (auto simp: fetch_blog_content_upb_def split: sum.splits)

theorem fetch_blog_content_absorbs_errors_witness:
  "fetch_blog_content_upb failing_loader example_state_upb =
     example_state_upb\<lparr>upb_current_content := Some ''Error loading blog: connection refused''\<rparr>
   \<and> fetch_blog_content_upb empty_loader example_state_upb =
     example_state_upb\<lparr>upb_current_content := Some ''No content could be loaded from the blog URL.''\<rparr>
   \<and> fetch_blog_content_upb page_loader example_state_upb =
     example_state_upb\<lparr>upb_current_content := Some ''Blog text''\<rparr>"
  using fetch_blog_content_absorbs_errors [of failing_loader example_state_upb
          "ExternalCollaboratorError ''connection refused''" "[]"]
        fetch_blog_content_absorbs_errors [of empty_loader example_state_upb TypeError "[]"]
        fetch_blog_content_absorbs_errors [of page_loader example_state_upb TypeError
          "[\<lparr>page_content = ''Blog text''\<rparr>, \<lparr>page_content = ''second''\<rparr>]"]
  by (simp add: failing_loader_def empty_loader_def page_loader_def)

subsection \<open>Approving the outline\<close>

text \<open>
  C8. Applying \<open>update_and_approve_outline\<close> twice with the same argument \<open>u\<close> gives the
  same state as applying it once: \<open>content_outline\<close> is \<open>u\<close> (the original outline when
  \<open>u\<close> is \<open>None\<close>), \<open>outline_approved\<close> is true, and every other field is that of \<open>s\<close>.
\<close>

theorem update_and_approve_outline_idempotent:
  "update_and_approve_outline (update_and_approve_outline s u) u = update_and_approve_outline s u
   \<and> update_and_approve_outline s u =
       s\<lparr>content_outline := (case u of Some x \<Rightarrow> Some x | None \<Rightarrow> content_outline s),
         outline_approved := True\<rparr>"
  by (cases u) (simp_all add: update_and_approve_outline_def)

subsection \<open>Formatting malformed results\<close>

text \<open>
  C10 holds for \<open>format_search_results\<close> of createPersonalityBlog.py and of
  updatePeopleBlogs.py (\<open>format_search_results_total\<close>, \<open>format_search_results_upb_total\<close>
  and \<open>excerpt_length\<close> above). The version of updateBlogGraph.py slices the content
  without testing it: on a result whose content is \<open>None\<close> it raises \<open>TypeError\<close>, where
  the two other versions return a string.
\<close>

theorem format_search_results_ubg_raises:
  "format_search_results_ubg [none_content_result] = Inl TypeError
   \<and> (\<exists>text. format_search_results [none_content_result] = Inr text)
   \<and> (\<exists>text. format_search_results_upb [none_content_result] = Inr text)"
  by (simp add: format_search_results_ubg_def content_preview_ubg_def dict_get_def
        none_content_result_def format_search_results_total format_search_results_upb_total)

subsection \<open>Compiled graphs and outgoing edges\<close>




subsection \<open>Determinism of a run\<close>

text \<open>
  C9. With the outputs of the external collaborators fixed (they are the functions inside
  the handlers of \<open>g\<close>), two executions from the same stage, state and external input visit
  the same sequence of stages and end with the same result; and every stage of the trace
  after the first is entered by a declared edge, a conditional edge or a Command issued by
  the stage before it, so a stage is visited again only when one of these routes back to
  it.
\<close>

theorem execution_deterministic:
  assumes "single_edges g"
      and "execution g stage s inp tr1 r1" and "execution g stage s inp tr2 r2"
  shows "tr1 = tr2 \<and> r1 = r2 \<and> routed g tr1"
  using execution_functional [OF assms] execution_routed [OF assms(2)] by simp

theorem execution_deterministic_witness:
  "routed (builder_ubg example_services_ubg)
     [''human_feedback'', ''create_outline'', ''human_feedback'']
   \<and> routed (builder_cpb example_services_cpb)
     [START, ''generate_search_queries'', ''search_web'', ''organize_research'',
      ''create_content_outline'', ''generate_blog_content'']
   \<and> execution (builder_ubg example_services_ubg) ''human_feedback'' example_state_ubg
       (Some (PyStr ''add section Y''))
       [''human_feedback'', ''create_outline'', ''human_feedback'']
       (Suspended ''human_feedback'' (interrupt_payload ''Outline v2'') revised_state_ubg)
   \<and> execution (builder_cpb example_services_cpb) START approved_state None
       [START, ''generate_search_queries'', ''search_web'', ''organize_research'',
        ''create_content_outline'', ''generate_blog_content'']
       (Completed final_state)"
  using execution_deterministic [OF single_edges_builder_ubg revision_loop revision_loop]
        execution_deterministic [OF single_edges_builder_cpb approved_run approved_run]
        revision_loop approved_run
  by simp

end
